theory Spec2Isabelle
  imports Main "HOL-Library.Log_Nat"
begin

section \<open>Notification collection (models/Notification)\<close>

text \<open>
  A Notification document, with the fields of \<open>notificationSchema\<close>. The identity
  \<open>_id\<close> and the \<open>createdAt\<close> timestamp are generated by the store on creation.
  Dates are numbers (milliseconds). Free text (title, message) is a JavaScript string: a
  list of UTF-16 code units. The \<open>metadata\<close> object is a list of key and value pairs.
\<close>

type_synonym jsstring = "int list"

record notification =
  n_id :: nat
  n_userId :: string
  n_title :: jsstring
  n_message :: jsstring
  n_type :: string
  n_isRead :: bool
  n_priority :: string
  n_category :: string
  n_readAt :: "nat option"
  n_expiresAt :: "nat option"
  n_metadata :: "(string \<times> string) list"
  n_createdAt :: nat
  n_updatedAt :: nat

text \<open>
  \<open>notificationSchema.statics.markAllAsRead\<close>:
  \<open>updateMany({userId, isRead: false}, {$set: {isRead: true, readAt: Date.now()}})\<close>.
  The collection is a list of documents; \<open>now\<close> is the value of \<open>Date.now()\<close>.
\<close>

definition markAllAsRead :: "nat \<Rightarrow> string \<Rightarrow> notification list \<Rightarrow> notification list" where
  "markAllAsRead now userId coll =
     map (\<lambda>n. if n_userId n = userId \<and> n_isRead n = False
              then n\<lparr>n_isRead := True, n_readAt := Some now\<rparr> else n) coll"

text \<open>\<open>notificationSchema.statics.getUnreadCount\<close>: \<open>countDocuments({userId, isRead: false})\<close>.\<close>

definition getUnreadCount :: "string \<Rightarrow> notification list \<Rightarrow> nat" where
  "getUnreadCount userId coll =
     length (filter (\<lambda>n. n_userId n = userId \<and> n_isRead n = False) coll)"

section \<open>Project model (models/Project)\<close>

record project =
  p_id :: string
  p_status :: string
  p_assignedManager :: string
  p_tasks :: "string list"
  p_progress :: int
  p_tasksCount :: int
  p_completedTasks :: int
  p_completionPercentage :: int
  p_endDate :: "nat option"

text \<open>
  \<open>projectSchema.pre('save')\<close>. It runs on the document in memory (\<open>this\<close>), whose
  \<open>tasks\<close> array is the one the code loaded and modified; the stored document is written
  afterwards (see \<open>save_modified_tasks\<close> below). The document's \<open>isModified(path)\<close> is
  passed as a predicate on path names.
\<close>

definition project_pre_save :: "(string \<Rightarrow> bool) \<Rightarrow> project \<Rightarrow> project" where
  "project_pre_save isModified this =
     (let this1 =
        (if isModified ''progress'' \<and> \<not> isModified ''completionPercentage''
         then this\<lparr>p_completionPercentage := p_progress this\<rparr>
         else if isModified ''completionPercentage'' \<and> \<not> isModified ''progress''
         then this\<lparr>p_progress := p_completionPercentage this\<rparr>
         else this)
      in if isModified ''tasks''
         then this1\<lparr>p_tasksCount := int (length (p_tasks this1))\<rparr>
         else this1)"

section \<open>Socket server: presence registry (SocketServer.connectedUsers)\<close>

text \<open>
  An authenticated socket carries its own id and the user attached by the handshake
  middleware (\<open>socket.userId\<close>, \<open>socket.user\<close>).
\<close>

record socket =
  sock_id :: string
  sock_userId :: string
  sock_userName :: string
  sock_userRole :: string
  sock_userIsActive :: bool

text \<open>What the server did, in order: rows written to the Notification collection and
  events emitted on the transport (target socket or room, event name, payload and its
  \<open>timestamp\<close>), an emit that threw (target, event name), and the confirmation sent to a
  newly connected socket.\<close>

datatype event =
    Persisted notification
  | Emitted string string notification nat
  | EmitThrew string string
  | EmittedConnected string

text \<open>
  The state of the socket server and of the Notification collection it writes to:
  \<open>connectedUsers\<close> is the \<open>Map\<close> "userId -> socketId"; \<open>rooms\<close> holds the pairs
  (socket id, room) made by \<open>socket.join\<close>; \<open>next_id\<close> is the store's id generator;
  \<open>trace\<close> is what the server did, in order; \<open>received\<close> is what clients got.
\<close>

record server =
  connectedUsers :: "string \<rightharpoonup> string"
  rooms :: "(string \<times> string) list"
  notifications :: "notification list"
  next_id :: nat
  trace :: "event list"
  received :: "(string \<times> notification) list"

text \<open>The \<open>'connection'\<close> handler of \<open>setupEventHandlers\<close>: \<open>connectedUsers.set(socket.userId,
  socket.id)\<close>, then the joins of the personal and the role room, then the confirmation.\<close>

definition on_connection :: "server \<Rightarrow> socket \<Rightarrow> server" where
  "on_connection srv s =
     srv\<lparr>connectedUsers := (connectedUsers srv)(sock_userId s \<mapsto> sock_id s),
         rooms := rooms srv @ [(sock_id s, ''user:'' @ sock_userId s),
                               (sock_id s, ''role:'' @ sock_userRole s)],
         trace := trace srv @ [EmittedConnected (sock_id s)]\<rparr>"

text \<open>The \<open>'disconnect'\<close> handler: \<open>connectedUsers.delete(socket.userId)\<close>. The transport
  itself removes a closed socket from its rooms.\<close>

definition on_disconnect :: "server \<Rightarrow> socket \<Rightarrow> server" where
  "on_disconnect srv s =
     srv\<lparr>connectedUsers := (connectedUsers srv)(sock_userId s := None),
         rooms := filter (\<lambda>(sid, r). sid \<noteq> sock_id s) (rooms srv)\<rparr>"

text \<open>The presence test used by the dispatcher: \<open>const socketId = connectedUsers.get(userId);
  if (socketId) ...\<close>. A missing key gives \<open>undefined\<close>, and an empty string is falsy too.\<close>

definition isPresent :: "server \<Rightarrow> string \<Rightarrow> bool" where
  "isPresent srv userId =
     (case connectedUsers srv userId of None \<Rightarrow> False | Some socketId \<Rightarrow> socketId \<noteq> [])"

text \<open>The registry operations of the specification, as the handlers perform them: a
  connection handle is a socket of the user.\<close>

definition mk_socket :: "string \<Rightarrow> string \<Rightarrow> socket" where
  "mk_socket userId h =
     \<lparr>sock_id = h, sock_userId = userId, sock_userName = [], sock_userRole = ''technician'',
      sock_userIsActive = True\<rparr>"

definition register :: "server \<Rightarrow> string \<Rightarrow> string \<Rightarrow> server" where
  "register srv userId h = on_connection srv (mk_socket userId h)"

definition unregister :: "server \<Rightarrow> string \<Rightarrow> string \<Rightarrow> server" where
  "unregister srv userId h = on_disconnect srv (mk_socket userId h)"

definition empty_server :: server where
  "empty_server = \<lparr>connectedUsers = Map.empty, rooms = [], notifications = [], next_id = 0,
      trace = [], received = []\<rparr>"

section \<open>JavaScript numbers and strings\<close>

text \<open>
  A JavaScript number is an IEEE-754 binary64 value. A positive finite one is
  \<open>m * 2 ^ e\<close> with a 53-bit significand \<open>m\<close>; zero is \<open>(0, 0)\<close>. Only the
  operations the completion percentage needs are modelled, on non-negative finite values
  in the normal range: the correctly rounded quotient of two counts, the correctly
  rounded product with an integer constant, and \<open>Math.round\<close>.
\<close>

type_synonym double = "int \<times> int"

text \<open>\<open>num / den\<close> rounded to the nearest integer, ties to even (\<open>den > 0\<close>).\<close>

definition rne :: "int \<Rightarrow> int \<Rightarrow> int" where
  "rne num den =
     (let q = num div den; r = num mod den
      in if 2 * r < den then q else if den < 2 * r then q + 1
         else if even q then q else q + 1)"

text \<open>The binary64 value nearest to \<open>n / d\<close> (\<open>n \<ge> 0\<close>, \<open>d > 0\<close>): the exponent
  \<open>e\<close> puts \<open>n / (d * 2 ^ e)\<close> in \<open>[2 ^ 52, 2 ^ 53)\<close>, and the significand is that
  quotient rounded to nearest, ties to even.\<close>

definition round_to_double :: "int \<Rightarrow> int \<Rightarrow> double" where
  "round_to_double n d =
     (if n = 0 then (0, 0)
      else let k = bitlen n - bitlen d;
               ge = (if 0 \<le> k then d * 2 ^ nat k \<le> n else d \<le> n * 2 ^ nat (- k));
               e = (if ge then k - 52 else k - 53)
           in if 0 \<le> e then (rne n (d * 2 ^ nat e), e)
              else (rne (n * 2 ^ nat (- e)) d, e))"

text \<open>\<open>a / b\<close> of two counts (\<open>b > 0\<close>), and \<open>x * k\<close> for an integer constant \<open>k\<close>.\<close>

definition js_div :: "nat \<Rightarrow> nat \<Rightarrow> double" where
  "js_div a b = round_to_double (int a) (int b)"

definition js_mul :: "double \<Rightarrow> nat \<Rightarrow> double" where
  "js_mul x k =
     (case x of (m, e) \<Rightarrow>
        (case round_to_double (m * int k) 1 of (m', e') \<Rightarrow> (m', e' + e)))"

text \<open>\<open>Math.round(x)\<close> is \<open>floor(x + 1/2)\<close>, computed exactly.\<close>

definition Math_round :: "double \<Rightarrow> int" where
  "Math_round x =
     (case x of (m, e) \<Rightarrow>
        if 0 \<le> e then m * 2 ^ nat e
        else (2 * m + 2 ^ nat (- e)) div (2 * 2 ^ nat (- e)))"

text \<open>The mathematical \<open>round(100 * c / t)\<close> of the specification (\<open>t > 0\<close>): the
  nearest integer to the exact quotient, a tie going up.\<close>

definition exact_round_percent :: "nat \<Rightarrow> nat \<Rightarrow> int" where
  "exact_round_percent c t = (200 * int c + int t) div (2 * int t)"

text \<open>
  \<open>String.prototype.trim\<close> removes, at both ends, the code units that are WhiteSpace or
  LineTerminator in ECMAScript: U+0009 to U+000D, U+0020, U+00A0, U+1680, U+2000 to
  U+200A, U+2028, U+2029, U+202F, U+205F, U+3000 and U+FEFF.
\<close>

definition is_ws :: "int \<Rightarrow> bool" where
  "is_ws c =
     (c \<in> set [9, 10, 11, 12, 13, 32, 160, 5760, 8232, 8233, 8239, 8287, 12288, 65279]
      \<or> (8192 \<le> c \<and> c \<le> 8202))"

definition js_trim :: "jsstring \<Rightarrow> jsstring" where
  "js_trim s = rev (dropWhile is_ws (rev (dropWhile is_ws s)))"

text \<open>The code units of an ASCII literal.\<close>

definition utf16 :: "string \<Rightarrow> jsstring" where
  "utf16 s = map of_char s"

text \<open>\<open>String.prototype.toLowerCase\<close> on ASCII letters.\<close>

definition toLowerCase :: "string \<Rightarrow> string" where
  "toLowerCase s =
     map (\<lambda>c. let n = (of_char c :: nat) in if 65 \<le> n \<and> n \<le> 90 then char_of (n + 32) else c) s"

text \<open>Truthiness of an optional string (\<open>undefined\<close> and \<open>""\<close> are falsy), and \<open>a || b\<close>.\<close>

definition truthy :: "'a list option \<Rightarrow> bool" where
  "truthy v = (case v of None \<Rightarrow> False | Some s \<Rightarrow> s \<noteq> [])"

definition js_or :: "'a list option \<Rightarrow> 'a list option \<Rightarrow> 'a list option" where
  "js_or a b = (if truthy a then a else b)"

section \<open>Task model (models/Task)\<close>

record status_log_entry =
  sl_status :: string
  sl_updatedBy :: string
  sl_timestamp :: nat
  sl_comment :: "string option"
  sl_files :: "(string \<times> string) list"
  sl_delayReason :: "jsstring option"

record task =
  t_id :: string
  t_project :: string
  t_assignedTo :: string
  t_assignedBy :: string
  t_status :: string
  t_deadline :: "nat option"
  t_dueDate :: "nat option"
  t_startedDate :: "nat option"
  t_completedDate :: "nat option"
  t_completedAt :: "nat option"
  t_progress :: int
  t_comments :: "(string \<times> string \<times> nat) list"
  t_files :: "(string \<times> string) list"
  t_statusLog :: "status_log_entry list"
  t_delayReason :: "jsstring option"

text \<open>\<open>taskSchema.pre('save')\<close>, block by block; \<open>now\<close> is \<open>new Date()\<close> and
  \<open>isModified\<close> is the document's \<open>isModified(path)\<close>.\<close>

text \<open>"Sync date fields": deadline and dueDate, then completedDate and completedAt.\<close>

definition sync_due_dates :: "(string \<Rightarrow> bool) \<Rightarrow> task \<Rightarrow> task" where
  "sync_due_dates isModified this =
     (if isModified ''deadline'' \<and> \<not> isModified ''dueDate''
      then this\<lparr>t_dueDate := t_deadline this\<rparr>
      else if isModified ''dueDate'' \<and> \<not> isModified ''deadline''
      then this\<lparr>t_deadline := t_dueDate this\<rparr>
      else this)"

definition sync_completed_dates :: "(string \<Rightarrow> bool) \<Rightarrow> task \<Rightarrow> task" where
  "sync_completed_dates isModified this =
     (if isModified ''completedDate'' \<and> \<not> isModified ''completedAt''
      then this\<lparr>t_completedAt := t_completedDate this\<rparr>
      else if isModified ''completedAt'' \<and> \<not> isModified ''completedDate''
      then this\<lparr>t_completedDate := t_completedAt this\<rparr>
      else this)"

text \<open>"Auto-set completion date when status changes to completed".\<close>

definition auto_completion :: "nat \<Rightarrow> (string \<Rightarrow> bool) \<Rightarrow> task \<Rightarrow> task" where
  "auto_completion now isModified this =
     (if isModified ''status'' \<and> (t_status this = ''completed'' \<or> t_status this = ''Completed'')
      then (if t_completedDate this = None \<and> t_completedAt this = None
            then this\<lparr>t_completedDate := Some now, t_completedAt := Some now\<rparr>
            else this)\<lparr>t_progress := 100\<rparr>
      else this)"

text \<open>"Auto-set started date when status changes to in_progress".\<close>

definition auto_start :: "nat \<Rightarrow> (string \<Rightarrow> bool) \<Rightarrow> task \<Rightarrow> task" where
  "auto_start now isModified this =
     (if isModified ''status'' \<and> (t_status this = ''in_progress'' \<or> t_status this = ''In Progress'')
      then (if t_startedDate this = None then this\<lparr>t_startedDate := Some now\<rparr> else this)
      else this)"

text \<open>"Update progress based on status": the \<open>switch\<close> on the lower-cased status.\<close>

definition progress_by_status :: "(string \<Rightarrow> bool) \<Rightarrow> task \<Rightarrow> task" where
  "progress_by_status isModified this =
     (if isModified ''status''
      then (let l = toLowerCase (t_status this)
            in if l = ''assigned'' \<or> l = ''pending'' then this\<lparr>t_progress := 0\<rparr>
               else if l = ''in_progress'' \<or> l = ''in progress''
               then (if t_progress this = 0 then this\<lparr>t_progress := 25\<rparr> else this)
               else if l = ''completed'' then this\<lparr>t_progress := 100\<rparr>
               else this)
      else this)"

definition task_pre_save :: "nat \<Rightarrow> (string \<Rightarrow> bool) \<Rightarrow> task \<Rightarrow> task" where
  "task_pre_save now isModified this =
     progress_by_status isModified
       (auto_start now isModified
          (auto_completion now isModified
             (sync_completed_dates isModified
                (sync_due_dates isModified this))))"

text \<open>\<open>isModified(path)\<close> of a loaded document: the path's value differs from the one
  loaded from the store.\<close>

definition task_isModified :: "task \<Rightarrow> task \<Rightarrow> string \<Rightarrow> bool" where
  "task_isModified orig cur path =
     (if path = ''status'' then t_status cur \<noteq> t_status orig
      else if path = ''progress'' then t_progress cur \<noteq> t_progress orig
      else if path = ''deadline'' then t_deadline cur \<noteq> t_deadline orig
      else if path = ''dueDate'' then t_dueDate cur \<noteq> t_dueDate orig
      else if path = ''startedDate'' then t_startedDate cur \<noteq> t_startedDate orig
      else if path = ''completedDate'' then t_completedDate cur \<noteq> t_completedDate orig
      else if path = ''completedAt'' then t_completedAt cur \<noteq> t_completedAt orig
      else False)"

text \<open>\<open>taskSchema.methods.updateProgress\<close>: the clamped progress, the status chosen
  from it ("Auto-update status based on progress"), and the \<open>save()\<close> it ends with: the
  pre-save hook runs on the modified document, \<open>this\<close> being the document as loaded.\<close>

definition status_by_progress :: "nat \<Rightarrow> task \<Rightarrow> task" where
  "status_by_progress now this =
     (if t_progress this = 0 then this\<lparr>t_status := ''assigned''\<rparr>
      else if t_progress this = 100
      then (if t_completedDate this = None
            then this\<lparr>t_status := ''completed'', t_completedDate := Some now, t_completedAt := Some now\<rparr>
            else this\<lparr>t_status := ''completed''\<rparr>)
      else if 0 < t_progress this \<and> (t_status this = ''assigned'' \<or> t_status this = ''Pending'')
      then (if t_startedDate this = None
            then this\<lparr>t_status := ''in_progress'', t_startedDate := Some now\<rparr>
            else this\<lparr>t_status := ''in_progress''\<rparr>)
      else this)"

definition updateProgress :: "nat \<Rightarrow> int \<Rightarrow> task \<Rightarrow> task" where
  "updateProgress now progressValue this =
     (let this' = status_by_progress now (this\<lparr>t_progress := max 0 (min 100 progressValue)\<rparr>)
      in task_pre_save now (task_isModified this this') this')"

section \<open>Project methods (models/Project)\<close>

text \<open>\<open>projectSchema.methods.calculateCompletion\<close>; the populated \<open>tasks\<close> array is passed
  as the list of the statuses of the project's tasks.\<close>

definition calculateCompletion :: "string list \<Rightarrow> project \<Rightarrow> project" where
  "calculateCompletion task_statuses this =
     (if 0 < length task_statuses
      then (let completedTasksCount = length (filter (\<lambda>s. s = ''Completed'') task_statuses);
                this1 = this\<lparr>p_completedTasks := int completedTasksCount,
                             p_tasksCount := int (length task_statuses)\<rparr>;
                this2 = this1\<lparr>p_completionPercentage :=
                          (if 0 < p_tasksCount this1
                           then Math_round (js_mul (js_div completedTasksCount (length task_statuses)) 100)
                           else 0)\<rparr>
            in this2\<lparr>p_progress := p_completionPercentage this2\<rparr>)
      else this)"

text \<open>\<open>projectSchema.methods.updateStatusByCompletion\<close>.\<close>

definition updateStatusByCompletion :: "nat \<Rightarrow> project \<Rightarrow> project" where
  "updateStatusByCompletion now this =
     (if p_completionPercentage this = 100
      then this\<lparr>p_status := ''Completed'', p_endDate := Some now\<rparr>
      else if 0 < p_completionPercentage this \<and> p_status this = ''Planning''
      then this\<lparr>p_status := ''In Progress''\<rparr>
      else this)"

section \<open>Technician route: PUT /tasks/:taskId/status\<close>

record request =
  req_userId :: string
  req_taskId :: string
  req_status :: string
  req_comment :: "string option"
  req_files :: "(string \<times> string) list"
  req_delayReason :: "jsstring option"

text \<open>The HTTP answer: status code and message.\<close>

datatype response = Response nat string

text \<open>The Task and Project collections, and the events emitted on the socket
  (room, event name, status of the task sent); \<open>io_ready\<close> says whether \<open>getIO()\<close>
  finds an initialised server.\<close>

record store =
  tasks :: "task list"
  projects :: "project list"
  io_ready :: bool
  emitted :: "(string \<times> string \<times> string) list"

text \<open>The update document prepared by the handler (\<open>updateData\<close> with its \<open>$push\<close>),
  applied to the stored task by \<open>findByIdAndUpdate\<close>. No save hook runs on this path.
  A key set to \<open>undefined\<close> is dropped from the update, so the stored delay reason
  stays when the new status is not "delayed".\<close>

definition apply_updateData :: "nat \<Rightarrow> request \<Rightarrow> task \<Rightarrow> task \<Rightarrow> task" where
  "apply_updateData now req found doc =
     (let status = req_status req;
          d1 = doc\<lparr>t_status := status\<rparr>;
          d2 = (if status = ''in_progress'' \<and> t_startedDate found = None
                then d1\<lparr>t_startedDate := Some now\<rparr>
                else if status = ''completed''
                then d1\<lparr>t_completedDate := Some now, t_progress := 100\<rparr>
                else d1);
          d3 = (if status = ''delayed'' then d2\<lparr>t_delayReason := req_delayReason req\<rparr> else d2);
          d4 = (if truthy (req_comment req)
                then d3\<lparr>t_comments := t_comments d3 @ [(the (req_comment req), req_userId req, now)]\<rparr>
                else d3);
          fileData = req_files req;
          d5 = (if 0 < length fileData then d4\<lparr>t_files := t_files d4 @ fileData\<rparr> else d4);
          statusLogEntry =
            \<lparr>sl_status = status, sl_updatedBy = req_userId req, sl_timestamp = now,
             sl_comment = (if truthy (req_comment req) then req_comment req else None),
             sl_files = fileData,
             sl_delayReason = (if status = ''delayed'' then req_delayReason req else None)\<rparr>
      in d5\<lparr>t_statusLog := t_statusLog d5 @ [statusLogEntry]\<rparr>)"

text \<open>The test \<open>!delayReason || delayReason.trim() === ""\<close>.\<close>

definition delayReason_missing :: "jsstring option \<Rightarrow> bool" where
  "delayReason_missing delayReason =
     (case delayReason of None \<Rightarrow> True | Some r \<Rightarrow> r = [] \<or> js_trim r = [])"

fun update_by_id :: "string \<Rightarrow> (task \<Rightarrow> task) \<Rightarrow> task list \<Rightarrow> task list" where
  "update_by_id i f [] = []"
| "update_by_id i f (t # ts) = (if t_id t = i then f t # ts else t # update_by_id i f ts)"

fun update_project :: "string \<Rightarrow> (project \<Rightarrow> project) \<Rightarrow> project list \<Rightarrow> project list" where
  "update_project i f [] = []"
| "update_project i f (p # ps) = (if p_id p = i then f p # ps else p # update_project i f ps)"

text \<open>The automatic project update of the handler: the body of
  \<open>if (parentProject) { ... }\<close>, on the stored project and the result of
  \<open>Task.find({ project: parentProject._id })\<close>.\<close>

definition recompute_project :: "task list \<Rightarrow> project \<Rightarrow> project" where
  "recompute_project allProjectTasks parentProject =
     (if 0 < length allProjectTasks
      then (let completedTasks = filter (\<lambda>t. t_status t = ''completed'') allProjectTasks;
                totalTasks = length allProjectTasks;
                completionPercentage = Math_round (js_mul (js_div (length completedTasks) totalTasks) 100);
                p1 = parentProject\<lparr>p_completedTasks := int (length completedTasks),
                                    p_tasksCount := int totalTasks,
                                    p_completionPercentage := completionPercentage\<rparr>;
                newProjectStatus =
                  (if length completedTasks = totalTasks then ''Completed''
                   else if 0 < length completedTasks then ''In Progress''
                   else ''Planning'')
            in if newProjectStatus \<noteq> p_status parentProject
               then p1\<lparr>p_status := newProjectStatus\<rparr> else p1)
      else parentProject)"

text \<open>
  A Project document in memory and the stored one. \<open>populate('tasks')\<close> replaces the ids
  of the loaded array by the Task documents and drops the ids for which there is none, so
  the in-memory \<open>tasks\<close> array can be shorter than the stored one.
\<close>

definition populate_tasks :: "task list \<Rightarrow> project \<Rightarrow> project" where
  "populate_tasks ts doc = doc\<lparr>p_tasks := filter (\<lambda>i. i \<in> set (map t_id ts)) (p_tasks doc)\<rparr>"

text \<open>How the \<open>tasks\<close> path of a loaded document was modified before \<open>save()\<close>: assigned
  as a whole, or extended by \<open>tasks.push(...)\<close>.\<close>

datatype tasks_write = SetTasks | PushTasks "string list"

text \<open>
  \<open>save()\<close> of a loaded Project document \<open>doc\<close> in which only \<open>tasks\<close> was modified, onto
  the stored document. The pre-save hook runs on the in-memory document; then the
  modified paths are written: \<open>tasksCount\<close> as the hook set it, and \<open>tasks\<close> either as
  the whole in-memory array (after an assignment) or as a \<open>$push\<close> of the pushed ids onto
  the stored array.
\<close>

definition save_modified_tasks :: "tasks_write \<Rightarrow> project \<Rightarrow> project \<Rightarrow> project" where
  "save_modified_tasks w doc stored =
     (let doc' = project_pre_save (\<lambda>path. path = ''tasks'') doc
      in stored\<lparr>p_tasks := (case w of SetTasks \<Rightarrow> p_tasks doc' | PushTasks ids \<Rightarrow> p_tasks stored @ ids),
                p_tasksCount := p_tasksCount doc'\<rparr>)"

text \<open>"Ensure the task is present in the parent project's tasks array": the project is
  loaded with its tasks populated; when the task is not among them its id is pushed and
  the document saved.\<close>

definition ensure_task_in_project :: "task list \<Rightarrow> string \<Rightarrow> project \<Rightarrow> project" where
  "ensure_task_in_project ts task_id stored =
     (let parentProject = populate_tasks ts stored
      in if task_id \<notin> set (p_tasks parentProject)
         then save_modified_tasks (PushTasks [task_id])
                (parentProject\<lparr>p_tasks := p_tasks parentProject @ [task_id]\<rparr>) stored
         else stored)"

text \<open>The handler. A task that is not the caller's gives 404; a "delayed" status with no
  reason gives 400 before anything is written; a task whose project is gone makes the
  population fail after the task was written (500).\<close>

definition put_task_status :: "nat \<Rightarrow> store \<Rightarrow> request \<Rightarrow> response \<times> store" where
  "put_task_status now st req =
     (case find (\<lambda>t. t_id t = req_taskId req \<and> t_assignedTo t = req_userId req) (tasks st) of
        None \<Rightarrow> (Response 404 ''Task not found or access denied'', st)
      | Some task \<Rightarrow>
          if req_status req = ''delayed'' \<and> delayReason_missing (req_delayReason req)
          then (Response 400 ''Delay reason is required when reporting delay.'', st)
          else
            (let st1 = st\<lparr>tasks := update_by_id (req_taskId req) (apply_updateData now req task) (tasks st)\<rparr>
             in case find (\<lambda>t. t_id t = req_taskId req) (tasks st1) of
                  None \<Rightarrow> (Response 500 ''Failed to update task status'', st1)
                | Some updatedTask \<Rightarrow>
                   (case find (\<lambda>p. p_id p = t_project updatedTask) (projects st1) of
                      None \<Rightarrow> (Response 500 ''Failed to update task status'', st1)
                    | Some parentProject \<Rightarrow>
                        (let st2 = st1\<lparr>projects := update_project (p_id parentProject)
                                     (ensure_task_in_project (tasks st1) (t_id updatedTask))
                                     (projects st1)\<rparr>;
                             allProjectTasks = filter (\<lambda>t. t_project t = p_id parentProject) (tasks st2);
                             st3 = st2\<lparr>projects := update_project (p_id parentProject)
                                     (recompute_project allProjectTasks) (projects st2)\<rparr>;
                             st4 =
                           (if io_ready st3
                            then st3\<lparr>emitted := emitted st3
                                   @ (if t_assignedBy task \<noteq> []
                                      then [(''user_'' @ t_assignedBy task, ''task_status_updated'', t_status updatedTask)]
                                      else [])
                                   @ [(''superadmin'', ''task_status_updated'', t_status updatedTask)]\<rparr>
                            else st3)
                         in (Response 200 ''Task status updated successfully'', st4)))))"

section \<open>Socket server: handshake middleware (SocketServer.setupMiddleware)\<close>

record user =
  u_id :: string
  u_name :: string
  u_role :: string
  u_isActive :: bool

text \<open>The places of the handshake where the middleware looks for a token.\<close>

record handshake =
  hs_auth_token :: "string option"
  hs_headers_authorization :: "string option"
  hs_query_token :: "string option"
  hs_auth_authorization :: "string option"

datatype auth_error = NoTokenProvided | UserNotFound | InvalidToken

text \<open>\<open>s.replace(pat, '')\<close>: the first occurrence of \<open>pat\<close> is removed.\<close>

fun remove_first :: "string \<Rightarrow> string \<Rightarrow> string" where
  "remove_first pat [] = []"
| "remove_first pat (c # cs) =
     (if take (length pat) (c # cs) = pat then drop (length pat) (c # cs)
      else c # remove_first pat cs)"

definition handshake_token :: "handshake \<Rightarrow> string option" where
  "handshake_token hs =
     js_or (hs_auth_token hs)
       (js_or (map_option (remove_first ''Bearer '') (hs_headers_authorization hs))
          (js_or (hs_query_token hs)
             (map_option (remove_first ''Bearer '') (hs_auth_authorization hs))))"

text \<open>
  The function passed to \<open>io.use\<close>. \<open>verify\<close> stands for \<open>jwt.verify(token, JWT_SECRET)\<close>:
  it gives the \<open>id\<close> of the decoded payload, or \<open>None\<close> where it throws (malformed,
  wrongly signed or expired token). \<open>users\<close> is the User collection. The result is
  the error given to \<open>next\<close>, or the socket with \<open>userId\<close> and \<open>user\<close> attached.
\<close>

definition socket_middleware ::
  "(string \<Rightarrow> string option) \<Rightarrow> user list \<Rightarrow> string \<Rightarrow> handshake \<Rightarrow> auth_error + socket" where
  "socket_middleware verify users socket_id hs =
     (let token = handshake_token hs
      in if \<not> truthy token then Inl NoTokenProvided
         else (case verify (the token) of
                 None \<Rightarrow> Inl InvalidToken
               | Some decoded_id \<Rightarrow>
                   (case find (\<lambda>u. u_id u = decoded_id) users of
                      None \<Rightarrow> Inl UserNotFound
                    | Some user \<Rightarrow>
                        Inr \<lparr>sock_id = socket_id, sock_userId = u_id user, sock_userName = u_name user,
                             sock_userRole = u_role user, sock_userIsActive = u_isActive user\<rparr>)))"

text \<open>A new connection: the middleware runs once, and the \<open>'connection'\<close> handler runs
  only when the middleware called \<open>next()\<close> without an error.\<close>

definition new_connection ::
  "(string \<Rightarrow> string option) \<Rightarrow> user list \<Rightarrow> server \<Rightarrow> string \<Rightarrow> handshake \<Rightarrow> (auth_error + socket) \<times> server" where
  "new_connection verify users srv socket_id hs =
     (case socket_middleware verify users socket_id hs of
        Inl err \<Rightarrow> (Inl err, srv)
      | Inr s \<Rightarrow> (Inr s, on_connection srv s))"

section \<open>Socket server: notification dispatcher\<close>

text \<open>The \<open>notification\<close> argument of the dispatcher; every field may be missing.\<close>

record payload =
  pl_title :: "jsstring option"
  pl_message :: "jsstring option"
  pl_type :: "string option"
  pl_priority :: "string option"
  pl_category :: "string option"
  pl_metadata :: "(string \<times> string) list option"

text \<open>What a call of the dispatcher can reject with: a validation error of the schema,
  a failed write (for a user id), or an exception thrown by the emit (for a socket id).\<close>

datatype store_error = ValidationError string | WriteError string | EmitError string

text \<open>The validators of \<open>notificationSchema\<close> on the trimmed title and message and on
  the enumerated fields: the first failure, if any.\<close>

definition schema_validation :: "jsstring \<Rightarrow> jsstring \<Rightarrow> string \<Rightarrow> string \<Rightarrow> string \<Rightarrow> store_error option" where
  "schema_validation title message type priority category =
     (if title = [] then Some (ValidationError ''Notification title is required'')
      else if 200 < length title then Some (ValidationError ''Title cannot exceed 200 characters'')
      else if message = [] then Some (ValidationError ''Notification message is required'')
      else if 1000 < length message then Some (ValidationError ''Message cannot exceed 1000 characters'')
      else if type \<notin> set [''info'', ''success'', ''warning'', ''error'', ''system'']
      then Some (ValidationError ''type'')
      else if priority \<notin> set [''low'', ''medium'', ''high'', ''urgent'']
      then Some (ValidationError ''priority'')
      else if category \<notin> set [''general'', ''security'', ''system'', ''task'', ''maintenance'']
      then Some (ValidationError ''category'')
      else None)"

text \<open>The document \<open>Notification.create\<close> builds from its argument: the trimmed title and
  message, the defaults of the schema, and the identity and timestamps given by the
  store.\<close>

definition new_document ::
  "nat \<Rightarrow> nat \<Rightarrow> string \<Rightarrow> jsstring option \<Rightarrow> jsstring option \<Rightarrow> string \<Rightarrow> string \<Rightarrow> string
     \<Rightarrow> (string \<times> string) list \<Rightarrow> notification" where
  "new_document now ident userId title message type priority category metadata =
     \<lparr>n_id = ident, n_userId = userId,
      n_title = js_trim (case title of None \<Rightarrow> [] | Some s \<Rightarrow> s),
      n_message = js_trim (case message of None \<Rightarrow> [] | Some s \<Rightarrow> s),
      n_type = type, n_isRead = False, n_priority = priority, n_category = category,
      n_readAt = None, n_expiresAt = None, n_metadata = metadata,
      n_createdAt = now, n_updatedAt = now\<rparr>"

text \<open>
  \<open>Notification.create\<close>: the schema's setters and validators, then the write itself.
  \<open>accepts\<close> is the environment: whether the store takes a document for that user id
  (the id casts to an ObjectId and the write reaches the database).
\<close>

definition Notification_create ::
  "(string \<Rightarrow> bool) \<Rightarrow> nat \<Rightarrow> server \<Rightarrow> string \<Rightarrow> jsstring option \<Rightarrow> jsstring option \<Rightarrow> string \<Rightarrow> string \<Rightarrow> string
     \<Rightarrow> (string \<times> string) list \<Rightarrow> store_error + (notification \<times> server)" where
  "Notification_create accepts now srv userId title message type priority category metadata =
     (let doc = new_document now (next_id srv) userId title message type priority category metadata
      in case schema_validation (n_title doc) (n_message doc) type priority category of
           Some err \<Rightarrow> Inl err
         | None \<Rightarrow>
             if accepts userId
             then Inr (doc, srv\<lparr>notifications := notifications srv @ [doc],
                                next_id := Suc (next_id srv),
                                trace := trace srv @ [Persisted doc]\<rparr>)
             else Inl (WriteError userId))"

definition or_default :: "'a list option \<Rightarrow> 'a list \<Rightarrow> 'a list" where
  "or_default v d = (if truthy v then the v else d)"

text \<open>\<open>notification.metadata || {}\<close>: any object is truthy, also the empty one.\<close>

definition metadata_or_empty :: "(string \<times> string) list option \<Rightarrow> (string \<times> string) list" where
  "metadata_or_empty m = (case m of None \<Rightarrow> [] | Some kvs \<Rightarrow> kvs)"

text \<open>
  \<open>SocketServer.sendNotificationToUser\<close>. The creation and the emit are both inside the
  \<open>try\<close> whose \<open>catch\<close> logs the error and throws it again. \<open>emit_throws\<close> is the
  environment: whether \<open>io.to(socketId).emit(...)\<close> throws for that socket id; a throwing
  emit rejects the call after the row was written. An emit that does not throw is
  fire-and-forget: the transport reports nothing back, and whether the client receives
  the event (\<open>delivers\<close>, per socket id) is recorded in \<open>received\<close> without the code
  seeing it.
\<close>

definition sendNotificationToUser ::
  "(string \<Rightarrow> bool) \<Rightarrow> (string \<Rightarrow> bool) \<Rightarrow> (string \<Rightarrow> bool) \<Rightarrow> nat \<Rightarrow> server \<Rightarrow> string \<Rightarrow> payload
     \<Rightarrow> (store_error + notification) \<times> server" where
  "sendNotificationToUser accepts emit_throws delivers now srv userId notification =
     (case Notification_create accepts now srv userId (pl_title notification) (pl_message notification)
             (or_default (pl_type notification) ''info'')
             (or_default (pl_priority notification) ''medium'')
             (or_default (pl_category notification) ''general'')
             (metadata_or_empty (pl_metadata notification)) of
        Inl err \<Rightarrow> (Inl err, srv)
      | Inr (savedNotification, srv1) \<Rightarrow>
          (let socketId = connectedUsers srv1 userId
           in if truthy socketId
              then (if emit_throws (the socketId)
                    then (Inl (EmitError (the socketId)),
                          srv1\<lparr>trace := trace srv1 @ [EmitThrew (the socketId) ''notification:new'']\<rparr>)
                    else (Inr savedNotification,
                          srv1\<lparr>trace := trace srv1
                                  @ [Emitted (the socketId) ''notification:new'' savedNotification now],
                               received := received srv1
                                  @ (if delivers (the socketId) then [(the socketId, savedNotification)] else [])\<rparr>))
              else (Inr savedNotification, srv1)))"




text \<open>The error with which persisting the notification for a user fails, if it does: the
  payload does not pass the schema, or the store refuses the document for that user.\<close>

definition persist_error :: "(string \<Rightarrow> bool) \<Rightarrow> payload \<Rightarrow> string \<Rightarrow> store_error option" where
  "persist_error accepts notification userId =
     (case schema_validation
             (js_trim (case pl_title notification of None \<Rightarrow> [] | Some s \<Rightarrow> s))
             (js_trim (case pl_message notification of None \<Rightarrow> [] | Some s \<Rightarrow> s))
             (or_default (pl_type notification) ''info'')
             (or_default (pl_priority notification) ''medium'')
             (or_default (pl_category notification) ''general'') of
        Some err \<Rightarrow> Some err
      | None \<Rightarrow> if accepts userId then None else Some (WriteError userId))"

text \<open>The document that a successful call persists for a user: built from the payload,
  with the next identity of the store and the time of the call.\<close>

definition saved_document :: "nat \<Rightarrow> server \<Rightarrow> string \<Rightarrow> payload \<Rightarrow> notification" where
  "saved_document now srv userId notification =
     new_document now (next_id srv) userId (pl_title notification) (pl_message notification)
       (or_default (pl_type notification) ''info'')
       (or_default (pl_priority notification) ''medium'')
       (or_default (pl_category notification) ''general'')
       (metadata_or_empty (pl_metadata notification))"


section \<open>Example documents and states\<close>

definition example_task :: "string \<Rightarrow> string \<Rightarrow> string \<Rightarrow> int \<Rightarrow> task" where
  "example_task i proj status progress =
     \<lparr>t_id = i, t_project = proj, t_assignedTo = ''tech1'', t_assignedBy = ''mgr1'',
      t_status = status, t_deadline = None, t_dueDate = None, t_startedDate = None,
      t_completedDate = None, t_completedAt = None, t_progress = progress, t_comments = [],
      t_files = [], t_statusLog = [], t_delayReason = None\<rparr>"

definition example_project :: "string \<Rightarrow> string \<Rightarrow> string list \<Rightarrow> project" where
  "example_project i status task_ids =
     \<lparr>p_id = i, p_status = status, p_assignedManager = ''mgr1'', p_tasks = task_ids,
      p_progress = 0, p_tasksCount = int (length task_ids), p_completedTasks = 0,
      p_completionPercentage = 0, p_endDate = None\<rparr>"

definition example_request :: "string \<Rightarrow> string \<Rightarrow> jsstring option \<Rightarrow> request" where
  "example_request i status reason =
     \<lparr>req_userId = ''tech1'', req_taskId = i, req_status = status, req_comment = None,
      req_files = [], req_delayReason = reason\<rparr>"

text \<open>The task ids \<open>t00\<close> ... \<open>t99\<close>.\<close>

definition task_name :: "nat \<Rightarrow> string" where
  "task_name i = [CHR ''t'', char_of (48 + i div 10), char_of (48 + i mod 10)]"

text \<open>A project with 40 tasks of technician \<open>tech1\<close>: 22 completed, \<open>t22\<close> in progress,
  17 assigned.\<close>

definition store40 :: store where
  "store40 =
     \<lparr>tasks = map (\<lambda>i. example_task (task_name i) ''p1''
                        (if i < 22 then ''completed'' else if i = 22 then ''in_progress'' else ''assigned'')
                        (if i < 22 then 100 else if i = 22 then 25 else 0)) [0..<40],
      projects = [example_project ''p1'' ''In Progress'' (map task_name [0..<40])],
      io_ready = True, emitted = []\<rparr>"

text \<open>A project in the given lifecycle status with two tasks, one in progress and one
  assigned.\<close>

definition store2 :: "string \<Rightarrow> store" where
  "store2 project_status =
     \<lparr>tasks = [example_task ''t1'' ''p1'' ''in_progress'' 25, example_task ''t2'' ''p1'' ''assigned'' 0],
      projects = [example_project ''p1'' project_status [''t1'', ''t2'']],
      io_ready = True, emitted = []\<rparr>"

text \<open>A project whose stored \<open>tasks\<close> array holds the id \<open>tX\<close> of no Task document and
  misses the id of its task \<open>t3\<close>.\<close>

definition dangling_project :: project where
  "dangling_project = example_project ''p1'' ''Planning'' [''t1'', ''tX'']"

definition dangling_store :: store where
  "dangling_store =
     \<lparr>tasks = [example_task ''t1'' ''p1'' ''in_progress'' 25, example_task ''t3'' ''p1'' ''assigned'' 0],
      projects = [dangling_project],
      io_ready = True, emitted = []\<rparr>"

text \<open>A project whose only task is completed.\<close>

definition store1 :: store where
  "store1 =
     \<lparr>tasks = [example_task ''t1'' ''p1'' ''completed'' 100],
      projects = [example_project ''p1'' ''Completed'' [''t1'']],
      io_ready = True, emitted = []\<rparr>"

text \<open>A payload with a title and a message, a store that refuses the documents of user
  \<open>B\<close> only, and a server on which user \<open>A\<close> is connected with socket \<open>sA\<close>.\<close>

definition example_payload :: payload where
  "example_payload =
     \<lparr>pl_title = Some (utf16 ''Task updated''), pl_message = Some (utf16 ''Task t1 is completed''),
      pl_type = None, pl_priority = Some ''high'', pl_category = Some ''task'',
      pl_metadata = None\<rparr>"

text \<open>The same payload with a title made of a no-break space only.\<close>

definition blank_title_payload :: payload where
  "blank_title_payload = example_payload\<lparr>pl_title := Some [160]\<rparr>"

text \<open>A transport on which no emit throws, and one on which the emit to socket \<open>sA\<close>
  throws.\<close>

definition never_throws :: "string \<Rightarrow> bool" where
  "never_throws socketId = False"

definition throws_for_sA :: "string \<Rightarrow> bool" where
  "throws_for_sA socketId = (socketId = ''sA'')"

definition refuses_B :: "string \<Rightarrow> bool" where
  "refuses_B userId = (userId \<noteq> ''B'')"

definition server_A :: server where
  "server_A = register empty_server ''A'' ''sA''"

text \<open>A deactivated user, and a token verifier that accepts the token \<open>good\<close> for that
  user.\<close>

definition example_users :: "user list" where
  "example_users = [\<lparr>u_id = ''u1'', u_name = ''Dee'', u_role = ''technician'', u_isActive = False\<rparr>]"

definition example_verify :: "string \<Rightarrow> string option" where
  "example_verify token = (if token = ''good'' then Some ''u1'' else None)"

definition example_handshake :: "string option \<Rightarrow> handshake" where
  "example_handshake token =
     \<lparr>hs_auth_token = token, hs_headers_authorization = None, hs_query_token = None,
      hs_auth_authorization = None\<rparr>"

section \<open>Theorems\<close>

subsection \<open>Presence registry\<close>

text \<open>A registered user with a non-empty socket id is present.\<close>

lemma register_makes_present:
  "h \<noteq> [] \<Longrightarrow> isPresent (register srv U h) U"
  by (simp add: isPresent_def register_def on_connection_def mk_socket_def)

text \<open>
  C5 (as the code has it). The registry keeps at most one handle per user, the last one
  registered: a second register(U, h2) replaces the handle h1, and U is present after it.
  The disconnect handler deletes the entry of U whichever of U's sockets closes: after
  register(U, h1), register(U, h2), unregister(U, h1) the user U is not present although
  h2 is still open, and after register(U, h) then unregister(U, h) the user U is not
  present. Registering or unregistering U leaves the entry of every other user as it was.
\<close>

theorem C5_presence_single_handle:
  "connectedUsers (register (register srv U h1) U h2) U = Some h2
   \<and> (h2 \<noteq> [] \<longrightarrow> isPresent (register (register srv U h1) U h2) U)
   \<and> isPresent (unregister (register (register srv U h1) U h2) U h1) U = False
   \<and> connectedUsers (register srv U h) U = Some h
   \<and> (h \<noteq> [] \<longrightarrow> isPresent (register srv U h) U)
   \<and> isPresent (unregister (register srv U h) U h) U = False
   \<and> (V \<noteq> U \<longrightarrow> connectedUsers (register srv U h) V = connectedUsers srv V
                  \<and> connectedUsers (unregister srv U h) V = connectedUsers srv V)"
  by (simp add: isPresent_def unregister_def register_def on_connection_def on_disconnect_def
      mk_socket_def)

theorem C5_presence_single_handle_witness:
  "''h2'' \<noteq> [] \<and> ''A'' \<noteq> ''u1''
   \<and> connectedUsers (register (register server_A ''u1'' ''h1'') ''u1'' ''h2'') ''u1'' = Some ''h2''
   \<and> isPresent (register (register server_A ''u1'' ''h1'') ''u1'' ''h2'') ''u1''
   \<and> \<not> isPresent (unregister (register (register server_A ''u1'' ''h1'') ''u1'' ''h2'') ''u1'' ''h1'') ''u1''
   \<and> isPresent (register server_A ''u1'' ''h2'') ''u1''
   \<and> \<not> isPresent (unregister (register server_A ''u1'' ''h2'') ''u1'' ''h2'') ''u1''
   \<and> connectedUsers (register server_A ''u1'' ''h2'') ''A'' = Some ''sA''
   \<and> connectedUsers (unregister server_A ''u1'' ''h2'') ''A'' = Some ''sA''"
proof -
  have a: "connectedUsers server_A ''A'' = Some ''sA''"
    by (simp add: server_A_def register_def on_connection_def mk_socket_def)
  have n: "''h2'' \<noteq> []" "''A'' \<noteq> ''u1''" by simp_all
  from C5_presence_single_handle [of server_A "''u1''" "''h1''" "''h2''" "''h2''" "''A''"] a n
  show ?thesis by simp
qed

text \<open>
  C5 (as stated) fails: with two distinct handles of the same user, closing the first one
  makes the user absent although the second is still open.
\<close>

theorem C5_presence_counterexample:
  "\<not> isPresent (unregister (register (register empty_server ''u1'' ''h1'') ''u1'' ''h2'')
                  ''u1'' ''h1'') ''u1''"
  by (simp add: isPresent_def unregister_def register_def on_connection_def on_disconnect_def
      mk_socket_def empty_server_def)

subsection \<open>Project save\<close>

text \<open>The pre-save hook sets the count of the document it runs on to the length of that
  document's in-memory array.\<close>

lemma pre_save_counts_document_tasks:
  assumes "isModified ''tasks''"
  shows "p_tasksCount (project_pre_save isModified p) = int (length (p_tasks (project_pre_save isModified p)))
         \<and> p_tasks (project_pre_save isModified p) = p_tasks p"
  using assms by (simp add: project_pre_save_def Let_def)

text \<open>Where the stored count equals the length of the stored array: after a save that
  assigned the array as a whole, and after a save that pushed onto an array loaded
  without populate (as the task creation route does).\<close>

lemma save_assigned_tasks:
  "p_tasksCount (save_modified_tasks SetTasks doc stored) = int (length (p_tasks (save_modified_tasks SetTasks doc stored)))
   \<and> p_tasks (save_modified_tasks SetTasks doc stored) = p_tasks doc"
  by (simp add: save_modified_tasks_def project_pre_save_def Let_def)

lemma save_pushed_tasks_unpopulated:
  "p_tasksCount (save_modified_tasks (PushTasks ids) (stored\<lparr>p_tasks := p_tasks stored @ ids\<rparr>) stored)
     = int (length (p_tasks (save_modified_tasks (PushTasks ids) (stored\<lparr>p_tasks := p_tasks stored @ ids\<rparr>) stored)))"
  by (simp add: save_modified_tasks_def project_pre_save_def Let_def)

text \<open>On the status route the project is loaded with its tasks populated: the hook counts
  the ids that have a Task document, plus the pushed one, while the push extends the
  stored array.\<close>

lemma ensure_task_in_project_pushed:
  assumes "i \<in> set (map t_id ts)" and "i \<notin> set (p_tasks stored)"
  shows "p_tasks (ensure_task_in_project ts i stored) = p_tasks stored @ [i]"
    and "p_tasksCount (ensure_task_in_project ts i stored)
           = int (length (filter (\<lambda>j. j \<in> set (map t_id ts)) (p_tasks stored))) + 1"
  using assms
  by (simp_all add: ensure_task_in_project_def save_modified_tasks_def project_pre_save_def
        populate_tasks_def Let_def)

text \<open>
  C9 (the code at one input). The stored tasks array of a project is [t1, tX], where tX is
  the id of no Task document, and the technician updates the status of task t3 of that
  project. The route loads the project with populate (in memory: [t1]), pushes t3 and
  saves: the hook sets tasksCount to 2, the length of the in-memory array, and the save
  pushes t3 onto the stored array, which then holds 3 ids. The stored project keeps 3 ids
  and tasksCount 2 to the end of the request.
\<close>

theorem C9_stored_count_after_populated_push:
  "(let saved = ensure_task_in_project (tasks dangling_store) ''t3'' dangling_project
    in (p_tasks saved, p_tasksCount saved)) = ([''t1'', ''tX'', ''t3''], 2)
   \<and> map (\<lambda>p. (p_tasks p, p_tasksCount p))
        (projects (snd (put_task_status 1000 dangling_store (example_request ''t3'' ''in_progress'' None))))
      = [([''t1'', ''tX'', ''t3''], 2)]"
  by code_simp

subsection \<open>Notification read state\<close>

lemma unread_after_markAll: "filter (\<lambda>n. n_userId n = u \<and> n_isRead n = False) (markAllAsRead now u coll) = []"
  by (induction coll) (simp_all add: markAllAsRead_def)

lemma others_after_markAll: "filter (\<lambda>n. n_userId n \<noteq> u) (markAllAsRead now u coll) = filter (\<lambda>n. n_userId n \<noteq> u) coll"
  by (induction coll) (simp_all add: markAllAsRead_def)

text \<open>
  C10. For every user u, after markAllAsRead(u) the unread count of u is 0, and the
  notifications of the other users are unchanged: the collection keeps its length, and
  the documents that do not belong to u are the same documents in the same order.
\<close>

theorem C10_markAllAsRead_clears_unread:
  "getUnreadCount u (markAllAsRead now u coll) = 0
   \<and> length (markAllAsRead now u coll) = length coll
   \<and> filter (\<lambda>n. n_userId n \<noteq> u) (markAllAsRead now u coll) = filter (\<lambda>n. n_userId n \<noteq> u) coll"
proof -
  have "getUnreadCount u (markAllAsRead now u coll) = 0"
    unfolding getUnreadCount_def unread_after_markAll by simp
  moreover have "length (markAllAsRead now u coll) = length coll"
    by (simp add: markAllAsRead_def)
  ultimately show ?thesis
    using others_after_markAll by blast
qed

subsection \<open>Status update route\<close>

text \<open>The percentage the handler computes for a project of four tasks, and for the
  counts 1 of 3, 2 of 3 and 1 of 8 (a tie, rounded up).\<close>

lemma percentage_small_projects:
  "map (\<lambda>c. Math_round (js_mul (js_div c 4) 100)) [0, 1, 2, 3, 4] = [0, 25, 50, 75, 100]"
  "Math_round (js_mul (js_div 1 3) 100) = 33"
  "Math_round (js_mul (js_div 2 3) 100) = 67"
  "Math_round (js_mul (js_div 1 8) 100) = 13"
  by code_simp+

lemma recompute_project_percentage:
  "allProjectTasks \<noteq> [] \<Longrightarrow>
     p_completionPercentage (recompute_project allProjectTasks p)
       = Math_round (js_mul (js_div (length (filter (\<lambda>t. t_status t = ''completed'') allProjectTasks))
                                     (length allProjectTasks)) 100)
     \<and> p_completedTasks (recompute_project allProjectTasks p)
       = int (length (filter (\<lambda>t. t_status t = ''completed'') allProjectTasks))
     \<and> p_tasksCount (recompute_project allProjectTasks p) = int (length allProjectTasks)"
  by (simp add: recompute_project_def Let_def)

text \<open>The handler on a store with one project, for a status other than "delayed": the
  answer, and the stored counts and percentage in terms of the project's tasks after the
  update.\<close>

lemma ensure_task_in_project_id: "p_id (ensure_task_in_project ts i P) = p_id P"
  by (simp add: ensure_task_in_project_def save_modified_tasks_def populate_tasks_def Let_def)

lemma put_task_status_single_project:
  assumes found: "find (\<lambda>t. t_id t = req_taskId req \<and> t_assignedTo t = req_userId req) (tasks st) = Some task"
    and status: "req_status req \<noteq> ''delayed''"
    and tasks': "tasks' = update_by_id (req_taskId req) (apply_updateData now req task) (tasks st)"
    and upd: "find (\<lambda>t. t_id t = req_taskId req) tasks' = Some updatedTask"
    and proj: "projects st = [P]" "p_id P = t_project updatedTask"
    and all: "allProjectTasks = filter (\<lambda>t. t_project t = p_id P) tasks'"
    and nonempty: "allProjectTasks \<noteq> []"
  shows "fst (put_task_status now st req) = Response 200 ''Task status updated successfully''"
    and "map (\<lambda>p. (p_completedTasks p, p_tasksCount p, p_completionPercentage p))
           (projects (snd (put_task_status now st req)))
         = [(int (length (filter (\<lambda>t. t_status t = ''completed'') allProjectTasks)),
             int (length allProjectTasks),
             Math_round (js_mul (js_div (length (filter (\<lambda>t. t_status t = ''completed'') allProjectTasks))
                                        (length allProjectTasks)) 100))]"
proof -
  let ?P1 = "ensure_task_in_project tasks' (t_id updatedTask) P"
  have id1: "p_id ?P1 = p_id P" by (rule ensure_task_in_project_id)
  have res: "put_task_status now st req =
     (Response 200 ''Task status updated successfully'',
      (if io_ready st
       then (\<lambda>s. s\<lparr>emitted := emitted st
                @ (if t_assignedBy task \<noteq> []
                   then [(''user_'' @ t_assignedBy task, ''task_status_updated'', t_status updatedTask)]
                   else [])
                @ [(''superadmin'', ''task_status_updated'', t_status updatedTask)]\<rparr>)
       else (\<lambda>s. s))
      (st\<lparr>tasks := tasks', projects := [recompute_project allProjectTasks ?P1]\<rparr>))"
    using found status upd proj id1 nonempty all
    by (simp add: put_task_status_def Let_def tasks'[symmetric])
  show "fst (put_task_status now st req) = Response 200 ''Task status updated successfully''"
    by (simp add: res)
  show "map (\<lambda>p. (p_completedTasks p, p_tasksCount p, p_completionPercentage p))
           (projects (snd (put_task_status now st req)))
         = [(int (length (filter (\<lambda>t. t_status t = ''completed'') allProjectTasks)),
             int (length allProjectTasks),
             Math_round (js_mul (js_div (length (filter (\<lambda>t. t_status t = ''completed'') allProjectTasks))
                                        (length allProjectTasks)) 100))]"
    using recompute_project_percentage [OF nonempty, of ?P1]
    by (simp add: res)
qed

text \<open>
  The two roundings behind 23 of 40, with their certificates in integer arithmetic. The
  quotient is the 53-bit number \<open>5179139571476070 * 2 ^ -53\<close>, within half a unit in the
  last place of 23 / 40; the product with 100 is \<open>8092405580431359 * 2 ^ -47\<close>, within
  half a unit of the exact product, and strictly below 57.5 = 115 / 2.
\<close>

lemma quotient_23_of_40:
  "js_div 23 40 = (5179139571476070, - 53)"
  "(2::int) ^ 52 \<le> 5179139571476070 \<and> 5179139571476070 < (2::int) ^ 53"
  "2 * \<bar>40 * 5179139571476070 - 23 * (2::int) ^ 53\<bar> < 40"
  by code_simp+

lemma product_23_of_40:
  "js_mul (5179139571476070, - 53) 100 = (8092405580431359, - 47)"
  "(2::int) ^ 52 \<le> 8092405580431359 \<and> 8092405580431359 < (2::int) ^ 53"
  "2 * \<bar>8092405580431359 * (2::int) ^ 6 - 100 * 5179139571476070\<bar> < 2 ^ 6"
  "2 * 8092405580431359 < 115 * (2::int) ^ 47"
  "Math_round (8092405580431359, - 47) = 57"
  by code_simp+

text \<open>
  C1 (the code at one input). A project has 40 tasks, 22 of them completed; the technician
  completes a 23rd. The handler answers 200 and stores completedTasks = 23, tasksCount = 40
  and completionPercentage = 57: the quotient 23 / 40 is rounded to a binary64 number just
  below 0.575 before it is multiplied by 100, so \<open>Math.round\<close> sees 57.49999999999999.
  The exact value 100 * 23 / 40 is 57.5, and round(57.5) is 58.
\<close>

theorem C1_completion_23_of_40:
  "(case put_task_status 1000 store40 (example_request ''t22'' ''completed'' None) of
      (resp, st') \<Rightarrow>
        (resp, map (\<lambda>p. (p_completedTasks p, p_tasksCount p, p_completionPercentage p)) (projects st')))
     = (Response 200 ''Task status updated successfully'', [(23, 40, 57)])
   \<and> exact_round_percent 23 40 = 58"
proof -
  let ?req = "example_request ''t22'' ''completed'' None"
  let ?task = "example_task ''t22'' ''p1'' ''in_progress'' 25"
  let ?tasks' = "update_by_id (req_taskId ?req) (apply_updateData 1000 ?req ?task) (tasks store40)"
  let ?P = "example_project ''p1'' ''In Progress'' (map task_name [0..<40])"
  let ?all = "filter (\<lambda>t. t_project t = p_id ?P) ?tasks'"
  have found: "find (\<lambda>t. t_id t = req_taskId ?req \<and> t_assignedTo t = req_userId ?req) (tasks store40) = Some ?task"
    by code_simp
  have status: "req_status ?req \<noteq> ''delayed''"
    by (simp add: example_request_def)
  have upd: "find (\<lambda>t. t_id t = req_taskId ?req) ?tasks' = Some (apply_updateData 1000 ?req ?task ?task)"
    by code_simp
  have proj: "projects store40 = [?P]"
    by (simp add: store40_def)
  have pid: "p_id ?P = t_project (apply_updateData 1000 ?req ?task ?task)"
    by (simp add: example_project_def apply_updateData_def Let_def example_task_def)
  have total: "length ?all = 40"
    by code_simp
  have completed: "length (filter (\<lambda>t. t_status t = ''completed'') ?all) = 23"
    by code_simp
  from total have nonempty: "?all \<noteq> []" by auto
  have pct: "Math_round (js_mul (js_div 23 40) 100) = 57"
    by code_simp
  have exact: "exact_round_percent 23 40 = 58"
    by code_simp
  note r = put_task_status_single_project [OF found status refl upd proj pid refl nonempty]
  from r total completed pct exact show ?thesis
    by (simp add: case_prod_beta)
qed

text \<open>\<open>calculateCompletion\<close> uses the same expression, on the tasks whose status is
  "Completed": 23 of 40 give 57 there too.\<close>

lemma calculateCompletion_23_of_40:
  "p_completionPercentage
     (calculateCompletion (replicate 23 ''Completed'' @ replicate 17 ''In Progress'')
        (example_project ''p1'' ''In Progress'' [])) = 57"
  by code_simp

text \<open>
  C2 (the code at two inputs). The handler's status decision looks at the counts only. A
  project that is "On Hold", with two tasks, becomes "In Progress" when the first task is
  completed; a project that is "Delayed", with no completed task, becomes "Planning" when
  a task is reported delayed.
\<close>

theorem C2_route_overrides_sticky_status:
  "map p_status (projects (snd (put_task_status 1000 (store2 ''On Hold'')
       (example_request ''t1'' ''completed'' None)))) = [''In Progress'']
   \<and> map p_status (projects (snd (put_task_status 1000 (store2 ''Delayed'')
       (example_request ''t1'' ''delayed'' (Some (utf16 ''rain'')))))) = [''Planning'']"
  by code_simp

text \<open>In general the handler's new project status is a function of the two counts.\<close>

lemma recompute_project_status:
  "allProjectTasks \<noteq> [] \<Longrightarrow>
     p_status (recompute_project allProjectTasks p)
       = (if length (filter (\<lambda>t. t_status t = ''completed'') allProjectTasks) = length allProjectTasks
          then ''Completed''
          else if 0 < length (filter (\<lambda>t. t_status t = ''completed'') allProjectTasks)
          then ''In Progress'' else ''Planning'')"
  by (simp add: recompute_project_def Let_def)

text \<open>The Project model's own method \<open>updateStatusByCompletion\<close> decides as C2 says: below 100
  percent, only a project in "Planning" changes status.\<close>

lemma updateStatusByCompletion_keeps_status:
  "p_completionPercentage p \<noteq> 100 \<Longrightarrow> p_status p \<noteq> ''Planning''
     \<Longrightarrow> p_status (updateStatusByCompletion now p) = p_status p"
  by (simp add: updateStatusByCompletion_def)

lemma updateStatusByCompletion_starts_planning:
  "0 < p_completionPercentage p \<Longrightarrow> p_completionPercentage p \<noteq> 100 \<Longrightarrow> p_status p = ''Planning''
     \<Longrightarrow> p_status (updateStatusByCompletion now p) = ''In Progress''"
  by (simp add: updateStatusByCompletion_def)

lemma delayReason_missing_cases:
  "delayReason_missing None" "delayReason_missing (Some [])"
  "delayReason_missing (Some (utf16 ''  ''))" "delayReason_missing (Some [160, 8195, 9])"
  by (simp_all add: delayReason_missing_def js_trim_def is_ws_def utf16_def)

text \<open>
  C6. When the requested status is "delayed" and the delay reason is missing, empty or
  blank, the handler answers with an error (400, or 404 when the task is not the
  caller's) and returns the store as it was: no task is written, no project is
  recomputed, nothing is emitted.
\<close>

theorem C6_delayed_needs_reason:
  assumes "req_status req = ''delayed''" and "delayReason_missing (req_delayReason req)"
  shows "put_task_status now st req =
          (if find (\<lambda>t. t_id t = req_taskId req \<and> t_assignedTo t = req_userId req) (tasks st) = None
           then Response 404 ''Task not found or access denied''
           else Response 400 ''Delay reason is required when reporting delay.'', st)"
  using assms by (simp add: put_task_status_def split: option.splits)

theorem C6_delayed_needs_reason_witness:
  "put_task_status 1000 (store2 ''Planning'') (example_request ''t1'' ''delayed'' None)
     = (Response 400 ''Delay reason is required when reporting delay.'', store2 ''Planning'')"
  using C6_delayed_needs_reason [of "example_request ''t1'' ''delayed'' None" 1000 "store2 ''Planning''"]
  by (simp add: example_request_def delayReason_missing_def store2_def example_task_def)


subsection \<open>Task progress and status\<close>

lemma status_sync_due [simp]: "t_status (sync_due_dates m x) = t_status x"
  and progress_sync_due [simp]: "t_progress (sync_due_dates m x) = t_progress x"
  by (simp_all add: sync_due_dates_def)

lemma status_sync_completed [simp]: "t_status (sync_completed_dates m x) = t_status x"
  and progress_sync_completed [simp]: "t_progress (sync_completed_dates m x) = t_progress x"
  by (simp_all add: sync_completed_dates_def)

lemma status_auto_completion [simp]: "t_status (auto_completion now m x) = t_status x"
  by (simp add: auto_completion_def)

lemma progress_auto_completion:
  "t_progress (auto_completion now m x) =
     (if m ''status'' \<and> (t_status x = ''completed'' \<or> t_status x = ''Completed'') then 100 else t_progress x)"
  by (auto simp add: auto_completion_def)

lemma status_auto_start [simp]: "t_status (auto_start now m x) = t_status x"
  and progress_auto_start [simp]: "t_progress (auto_start now m x) = t_progress x"
  by (simp_all add: auto_start_def)

lemma status_progress_by_status [simp]: "t_status (progress_by_status m x) = t_status x"
  by (simp add: progress_by_status_def Let_def)

lemma status_task_pre_save: "t_status (task_pre_save now m x) = t_status x"
  by (simp add: task_pre_save_def)

lemma progress_unmodified: "\<not> m ''status'' \<Longrightarrow> t_progress (task_pre_save now m x) = t_progress x"
  by (simp add: task_pre_save_def progress_by_status_def progress_auto_completion)

lemma progress_completed:
  "m ''status'' \<Longrightarrow> toLowerCase (t_status x) = ''completed'' \<Longrightarrow> t_progress (task_pre_save now m x) = 100"
  by (simp add: task_pre_save_def progress_by_status_def Let_def)

lemma progress_assigned:
  "m ''status'' \<Longrightarrow> toLowerCase (t_status x) = ''assigned'' \<or> toLowerCase (t_status x) = ''pending''
    \<Longrightarrow> t_progress (task_pre_save now m x) = 0"
  by (auto simp add: task_pre_save_def progress_by_status_def Let_def)

lemma lower_in_progress: "toLowerCase ''in_progress'' = ''in_progress''"
  and lower_assigned: "toLowerCase ''assigned'' = ''assigned''"
  and lower_completed: "toLowerCase ''completed'' = ''completed''"
  by (simp_all add: toLowerCase_def)

lemma progress_in_progress:
  "t_status x = ''in_progress'' \<Longrightarrow> t_progress x \<noteq> 0 \<Longrightarrow> t_progress (task_pre_save now m x) = t_progress x"
  by (simp add: task_pre_save_def progress_by_status_def Let_def lower_in_progress progress_auto_completion)

lemma status_by_progress_cases:
  "t_status (status_by_progress now x) =
     (if t_progress x = 0 then ''assigned'' else if t_progress x = 100 then ''completed''
      else if 0 < t_progress x \<and> (t_status x = ''assigned'' \<or> t_status x = ''Pending'') then ''in_progress''
      else t_status x)"
  and progress_status_by_progress: "t_progress (status_by_progress now x) = t_progress x"
  by (auto simp add: status_by_progress_def)


lemma updateProgress_result:
   "t_progress (updateProgress now v this) = max 0 (min 100 v) \<and>
   (t_progress (updateProgress now v this) = 0 \<longleftrightarrow> t_status (updateProgress now v this) = ''assigned'') \<and>
   (t_progress (updateProgress now v this) = 100 \<longrightarrow> t_status (updateProgress now v this) = ''completed'')"
proof -
  define c where "c = max 0 (min 100 v)"
  define x where "x = this\<lparr>t_progress := c\<rparr>"
  define y where "y = status_by_progress now x"
  have px: "t_progress x = c" and sx: "t_status x = t_status this" by (simp_all add: x_def)
  have py: "t_progress y = c" by (simp add: y_def progress_status_by_progress px)
  have sy: "t_status y = (if c = 0 then ''assigned'' else if c = 100 then ''completed''
      else if 0 < c \<and> (t_status this = ''assigned'' \<or> t_status this = ''Pending'') then ''in_progress''
      else t_status this)"
    by (auto simp add: y_def status_by_progress_cases px sx)
  have up: "updateProgress now v this = task_pre_save now (task_isModified this y) y"
    by (simp add: updateProgress_def Let_def y_def x_def c_def)
  have st: "t_status (updateProgress now v this) = t_status y"
    by (simp add: up status_task_pre_save)
  have pr: "t_progress (updateProgress now v this) = c"
  proof (cases "task_isModified this y ''status''")
    case False
    then show ?thesis by (simp add: up progress_unmodified py)
  next
    case True
    consider "c = 0" | "c = 100" | "c \<noteq> 0" "c \<noteq> 100" by blast
    then show ?thesis
    proof cases
      case 1
      then have "toLowerCase (t_status y) = ''assigned''" by (simp add: sy lower_assigned)
      with True 1 show ?thesis by (simp add: up progress_assigned)
    next
      case 2
      then have "toLowerCase (t_status y) = ''completed''" by (simp add: sy lower_completed)
      with True 2 show ?thesis by (simp add: up progress_completed)
    next
      case 3
      from True have "t_status y \<noteq> t_status this" by (simp add: task_isModified_def)
      with 3 have "t_status y = ''in_progress''" by (auto simp add: sy split: if_splits)
      moreover from 3 have "t_progress y \<noteq> 0" by (simp add: py)
      ultimately show ?thesis by (simp add: up progress_in_progress py)
    qed
  qed
  have c_range: "0 \<le> c" "c \<le> 100" by (simp_all add: c_def)
  show ?thesis
    unfolding pr st sy c_def[symmetric] using c_range by auto
qed


lemma apply_updateData_status:
  "t_status (apply_updateData now req found doc) = req_status req"
  by (simp add: apply_updateData_def Let_def)

lemma apply_updateData_progress:
  "t_progress (apply_updateData now req found doc) = (if req_status req = ''completed'' then 100 else t_progress doc)"
  by (simp add: apply_updateData_def Let_def)

text \<open>
  C7 (as the code has it). The code ties progress to status in one direction per
  operation. The status route stores progress 100 with the status "completed" and
  otherwise leaves the stored progress as it was. A save that modified the status leaves
  progress 100 for a completed task and progress 0 for an assigned or pending one.
  updateProgress stores the clamped value; after it, progress is 0 exactly when the status
  is "assigned", and progress 100 implies the status "completed".
\<close>

theorem C7_progress_follows_status:
  "(t_status (apply_updateData now req found doc) = ''completed''
      \<longrightarrow> t_progress (apply_updateData now req found doc) = 100)
   \<and> (t_status (apply_updateData now req found doc) \<noteq> ''completed''
      \<longrightarrow> t_progress (apply_updateData now req found doc) = t_progress doc)
   \<and> (isModified ''status'' \<and> toLowerCase (t_status (task_pre_save now isModified saved)) = ''completed''
      \<longrightarrow> t_progress (task_pre_save now isModified saved) = 100)
   \<and> (isModified ''status'' \<and> (toLowerCase (t_status (task_pre_save now isModified saved)) = ''assigned''
                             \<or> toLowerCase (t_status (task_pre_save now isModified saved)) = ''pending'')
      \<longrightarrow> t_progress (task_pre_save now isModified saved) = 0)
   \<and> t_progress (updateProgress now v this) = max 0 (min 100 v)
   \<and> (t_progress (updateProgress now v this) = 0 \<longleftrightarrow> t_status (updateProgress now v this) = ''assigned'')
   \<and> (t_progress (updateProgress now v this) = 100 \<longrightarrow> t_status (updateProgress now v this) = ''completed'')"
proof -
  have route: "(t_status (apply_updateData now req found doc) = ''completed''
      \<longrightarrow> t_progress (apply_updateData now req found doc) = 100)
   \<and> (t_status (apply_updateData now req found doc) \<noteq> ''completed''
      \<longrightarrow> t_progress (apply_updateData now req found doc) = t_progress doc)"
    by (simp add: apply_updateData_status apply_updateData_progress)
  have hook1: "isModified ''status'' \<and> toLowerCase (t_status (task_pre_save now isModified saved)) = ''completed''
      \<longrightarrow> t_progress (task_pre_save now isModified saved) = 100"
    by (simp add: status_task_pre_save progress_completed)
  have hook2: "isModified ''status'' \<and> (toLowerCase (t_status (task_pre_save now isModified saved)) = ''assigned''
                             \<or> toLowerCase (t_status (task_pre_save now isModified saved)) = ''pending'')
      \<longrightarrow> t_progress (task_pre_save now isModified saved) = 0"
    using progress_assigned [of isModified saved now] by (simp add: status_task_pre_save)
  from route hook1 hook2 updateProgress_result [of now v this] show ?thesis
    by blast
qed

theorem C7_progress_follows_status_witness:
  "t_status (apply_updateData 1000 (example_request ''t1'' ''completed'' None)
       (example_task ''t1'' ''p1'' ''in_progress'' 25) (example_task ''t1'' ''p1'' ''in_progress'' 25)) = ''completed''
   \<and> t_progress (apply_updateData 1000 (example_request ''t1'' ''completed'' None)
       (example_task ''t1'' ''p1'' ''in_progress'' 25) (example_task ''t1'' ''p1'' ''in_progress'' 25)) = 100
   \<and> (\<lambda>path. path = ''status'') ''status''
   \<and> toLowerCase (t_status (task_pre_save 1000 (\<lambda>path. path = ''status'')
       (example_task ''t1'' ''p1'' ''Completed'' 60))) = ''completed''
   \<and> t_progress (task_pre_save 1000 (\<lambda>path. path = ''status'')
       (example_task ''t1'' ''p1'' ''Completed'' 60)) = 100
   \<and> toLowerCase (t_status (task_pre_save 1000 (\<lambda>path. path = ''status'')
       (example_task ''t1'' ''p1'' ''assigned'' 60))) = ''assigned''
   \<and> t_progress (task_pre_save 1000 (\<lambda>path. path = ''status'')
       (example_task ''t1'' ''p1'' ''assigned'' 60)) = 0
   \<and> t_progress (updateProgress 1000 250 (example_task ''t1'' ''p1'' ''in_progress'' 25)) = 100
   \<and> t_status (updateProgress 1000 250 (example_task ''t1'' ''p1'' ''in_progress'' 25)) = ''completed''"
proof -
  let ?req = "example_request ''t1'' ''completed'' None"
  let ?t = "example_task ''t1'' ''p1'' ''in_progress'' 25"
  let ?m = "\<lambda>path. path = ''status''"
  have s1: "t_status (apply_updateData 1000 ?req ?t ?t) = ''completed''"
    by (simp add: apply_updateData_status example_request_def)
  have "toLowerCase ''Completed'' = ''completed''"
    by code_simp
  then have s2: "toLowerCase (t_status (task_pre_save 1000 ?m (example_task ''t1'' ''p1'' ''Completed'' 60))) = ''completed''"
    by (simp add: status_task_pre_save example_task_def)
  have s3: "toLowerCase (t_status (task_pre_save 1000 ?m (example_task ''t1'' ''p1'' ''assigned'' 60))) = ''assigned''"
    by (simp add: status_task_pre_save example_task_def toLowerCase_def)
  have s4: "max 0 (min 100 (250::int)) = 100" by simp
  note a = C7_progress_follows_status [of 1000 ?req ?t ?t ?m "example_task ''t1'' ''p1'' ''Completed'' 60" 250 ?t]
  note b = C7_progress_follows_status [of 1000 ?req ?t ?t ?m "example_task ''t1'' ''p1'' ''assigned'' 60" 250 ?t]
  from a b s1 s2 s3 s4 show ?thesis by simp
qed

text \<open>
  C7 (as stated) fails on the status route: a completed task with progress 100 that the
  technician puts back to "in_progress" keeps progress 100 under a status that is not
  "completed".
\<close>

theorem C7_reopened_task_counterexample:
  "map (\<lambda>t. (t_status t, t_progress t))
     (tasks (snd (put_task_status 1000 store1 (example_request ''t1'' ''in_progress'' None))))
     = [(''in_progress'', 100)]"
  by code_simp


subsection \<open>Handshake middleware\<close>

text \<open>A connection without a usable token, with a token that does not verify, or with a
  token of a user that is not in the collection is refused, and a refused connection
  leaves the server as it was (no presence entry, no room).\<close>

lemma refused_connection_cases:
  "\<not> truthy (handshake_token hs) \<Longrightarrow> new_connection verify users srv sid hs = (Inl NoTokenProvided, srv)"
  "truthy (handshake_token hs) \<Longrightarrow> verify (the (handshake_token hs)) = None
     \<Longrightarrow> new_connection verify users srv sid hs = (Inl InvalidToken, srv)"
  "truthy (handshake_token hs) \<Longrightarrow> verify (the (handshake_token hs)) = Some i
     \<Longrightarrow> find (\<lambda>u. u_id u = i) users = None
     \<Longrightarrow> new_connection verify users srv sid hs = (Inl UserNotFound, srv)"
  by (simp_all add: new_connection_def socket_middleware_def Let_def)

lemma refused_connection_no_state:
  "new_connection verify users srv sid hs = (Inl err, srv') \<Longrightarrow> srv' = srv"
  by (auto simp add: new_connection_def split: sum.splits)

text \<open>
  C8 (the code at one input). The user \<open>u1\<close> exists and is deactivated (isActive is
  false); the handshake carries a token that verifies for \<open>u1\<close>. The middleware accepts
  the connection: the socket is registered in connectedUsers and joined to the user's
  room and to the role room.
\<close>

theorem C8_deactivated_user_connects:
  "(case new_connection example_verify example_users empty_server ''s1'' (example_handshake (Some ''good'')) of
      (r, srv') \<Rightarrow>
        (isl r, map_option sock_userIsActive (case r of Inl _ \<Rightarrow> None | Inr s \<Rightarrow> Some s),
         connectedUsers srv' ''u1'', rooms srv'))
   = (False, Some False, Some ''s1'', [(''s1'', ''user:u1''), (''s1'', ''role:technician'')])"
  by (simp add: new_connection_def socket_middleware_def handshake_token_def js_or_def truthy_def
       example_verify_def example_users_def example_handshake_def empty_server_def on_connection_def)

subsection \<open>Notification dispatcher\<close>

text \<open>The four outcomes of one call.\<close>

lemma create_cases:
  "Notification_create accepts now srv u (pl_title n) (pl_message n)
       (or_default (pl_type n) ''info'') (or_default (pl_priority n) ''medium'')
       (or_default (pl_category n) ''general'') (metadata_or_empty (pl_metadata n))
    = (case persist_error accepts n u of
         Some err \<Rightarrow> Inl err
       | None \<Rightarrow> Inr (saved_document now srv u n,
                       srv\<lparr>notifications := notifications srv @ [saved_document now srv u n],
                           next_id := Suc (next_id srv),
                           trace := trace srv @ [Persisted (saved_document now srv u n)]\<rparr>))"
  by (simp add: Notification_create_def persist_error_def saved_document_def new_document_def Let_def
       split: option.splits)

lemma send_persist_fails:
  "persist_error accepts n u = Some err
     \<Longrightarrow> sendNotificationToUser accepts emit_throws delivers now srv u n = (Inl err, srv)"
  by (simp add: sendNotificationToUser_def create_cases)

lemma send_absent:
  "persist_error accepts n u = None \<Longrightarrow> \<not> isPresent srv u
     \<Longrightarrow> sendNotificationToUser accepts emit_throws delivers now srv u n
         = (Inr (saved_document now srv u n),
            srv\<lparr>notifications := notifications srv @ [saved_document now srv u n],
                next_id := Suc (next_id srv),
                trace := trace srv @ [Persisted (saved_document now srv u n)]\<rparr>)"
  by (simp add: sendNotificationToUser_def create_cases isPresent_def truthy_def Let_def)

lemma send_emit_throws:
  "persist_error accepts n u = None \<Longrightarrow> isPresent srv u \<Longrightarrow> emit_throws (the (connectedUsers srv u))
     \<Longrightarrow> sendNotificationToUser accepts emit_throws delivers now srv u n
         = (Inl (EmitError (the (connectedUsers srv u))),
            srv\<lparr>notifications := notifications srv @ [saved_document now srv u n],
                next_id := Suc (next_id srv),
                trace := trace srv @ [Persisted (saved_document now srv u n),
                                      EmitThrew (the (connectedUsers srv u)) ''notification:new'']\<rparr>)"
  by (simp add: sendNotificationToUser_def create_cases isPresent_def truthy_def Let_def)

lemma send_emitted:
  "persist_error accepts n u = None \<Longrightarrow> isPresent srv u \<Longrightarrow> \<not> emit_throws (the (connectedUsers srv u))
     \<Longrightarrow> sendNotificationToUser accepts emit_throws delivers now srv u n
         = (Inr (saved_document now srv u n),
            srv\<lparr>notifications := notifications srv @ [saved_document now srv u n],
                next_id := Suc (next_id srv),
                trace := trace srv @ [Persisted (saved_document now srv u n),
                                      Emitted (the (connectedUsers srv u)) ''notification:new''
                                        (saved_document now srv u n) now],
                received := received srv @ (if delivers (the (connectedUsers srv u))
                                            then [(the (connectedUsers srv u), saved_document now srv u n)] else [])\<rparr>)"
  by (simp add: sendNotificationToUser_def create_cases isPresent_def truthy_def Let_def)

lemma example_persist_error:
  "persist_error refuses_B example_payload ''A'' = None"
  "persist_error refuses_B example_payload ''B'' = Some (WriteError ''B'')"
  "persist_error refuses_B example_payload ''C'' = None"
  "persist_error refuses_B blank_title_payload ''A'' = Some (ValidationError ''Notification title is required'')"
  by code_simp+

lemma server_A_facts:
  "isPresent server_A ''A''" "\<not> isPresent server_A ''C''" "\<not> isPresent server_A ''B''"
  "connectedUsers server_A ''A'' = Some ''sA''"
  "trace server_A = [EmittedConnected ''sA'']" "next_id server_A = 0" "notifications server_A = []"
  by (simp_all add: isPresent_def server_A_def register_def on_connection_def mk_socket_def
         empty_server_def)

text \<open>
  C3 (as the code has it). The document a call persists carries the identity generated by
  the store, the creation time and the target user. When persisting fails, the call
  rejects with that error, and nothing is written or pushed. When persisting succeeds, the
  row is written first (it is the last row of the collection, and the first new entry of
  the trace), and a push is attempted only if the user is in the registry. If no push is
  attempted, or the emit does not throw, the persisted record is returned, whether or not
  the client receives the event. If the emit throws, the call rejects with that error
  although the row stays written.
\<close>

theorem C3_persist_then_push:
  "n_id (saved_document now srv u n) = next_id srv
   \<and> n_createdAt (saved_document now srv u n) = now
   \<and> n_userId (saved_document now srv u n) = u
   \<and> (case persist_error accepts n u of
         Some err \<Rightarrow> sendNotificationToUser accepts emit_throws delivers now srv u n = (Inl err, srv)
       | None \<Rightarrow>
           notifications (snd (sendNotificationToUser accepts emit_throws delivers now srv u n))
             = notifications srv @ [saved_document now srv u n]
           \<and> (if isPresent srv u
               then (if emit_throws (the (connectedUsers srv u))
                     then fst (sendNotificationToUser accepts emit_throws delivers now srv u n)
                            = Inl (EmitError (the (connectedUsers srv u)))
                          \<and> trace (snd (sendNotificationToUser accepts emit_throws delivers now srv u n))
                            = trace srv @ [Persisted (saved_document now srv u n),
                                           EmitThrew (the (connectedUsers srv u)) ''notification:new'']
                     else fst (sendNotificationToUser accepts emit_throws delivers now srv u n)
                            = Inr (saved_document now srv u n)
                          \<and> trace (snd (sendNotificationToUser accepts emit_throws delivers now srv u n))
                            = trace srv @ [Persisted (saved_document now srv u n),
                                           Emitted (the (connectedUsers srv u)) ''notification:new''
                                             (saved_document now srv u n) now])
               else fst (sendNotificationToUser accepts emit_throws delivers now srv u n)
                      = Inr (saved_document now srv u n)
                    \<and> trace (snd (sendNotificationToUser accepts emit_throws delivers now srv u n))
                      = trace srv @ [Persisted (saved_document now srv u n)]))"
proof -
  have ident: "n_id (saved_document now srv u n) = next_id srv
     \<and> n_createdAt (saved_document now srv u n) = now \<and> n_userId (saved_document now srv u n) = u"
    by (simp add: saved_document_def new_document_def)
  show ?thesis
  proof (cases "persist_error accepts n u")
    case (Some err)
    with ident send_persist_fails [of accepts n u err emit_throws delivers now srv] show ?thesis by simp
  next
    case None
    show ?thesis
    proof (cases "isPresent srv u")
      case False
      with ident None send_absent [of accepts n u srv emit_throws delivers now] show ?thesis by simp
    next
      case True
      show ?thesis
      proof (cases "emit_throws (the (connectedUsers srv u))")
        case thr: True
        with ident None True send_emit_throws [of accepts n u srv emit_throws delivers now] show ?thesis by simp
      next
        case nothr: False
        with ident None True send_emitted [of accepts n u srv emit_throws delivers now] show ?thesis by simp
      qed
    qed
  qed
qed

theorem C3_persist_then_push_witness:
  "fst (sendNotificationToUser refuses_B never_throws (\<lambda>s. False) 1000 server_A ''A'' example_payload)
     = Inr (saved_document 1000 server_A ''A'' example_payload)
   \<and> trace (snd (sendNotificationToUser refuses_B never_throws (\<lambda>s. False) 1000 server_A ''A'' example_payload))
     = [EmittedConnected ''sA'', Persisted (saved_document 1000 server_A ''A'' example_payload),
        Emitted ''sA'' ''notification:new'' (saved_document 1000 server_A ''A'' example_payload) 1000]
   \<and> fst (sendNotificationToUser refuses_B never_throws (\<lambda>s. False) 1000 server_A ''C'' example_payload)
     = Inr (saved_document 1000 server_A ''C'' example_payload)
   \<and> trace (snd (sendNotificationToUser refuses_B never_throws (\<lambda>s. False) 1000 server_A ''C'' example_payload))
     = [EmittedConnected ''sA'', Persisted (saved_document 1000 server_A ''C'' example_payload)]
   \<and> n_id (saved_document 1000 server_A ''A'' example_payload) = 0
   \<and> n_createdAt (saved_document 1000 server_A ''A'' example_payload) = 1000"
  using C3_persist_then_push [of 1000 server_A "''A''" example_payload refuses_B never_throws "\<lambda>s. False"]
        C3_persist_then_push [of 1000 server_A "''C''" example_payload refuses_B never_throws "\<lambda>s. False"]
        example_persist_error server_A_facts
  by (simp add: never_throws_def)

text \<open>
  C3 (as stated) fails at two inputs. For the connected user A on a transport whose emit
  to A's socket throws, the row is written and the call rejects: the persisted record is
  not returned. For a payload whose title is a no-break space, the schema rejects the
  document: nothing is persisted and the call rejects.
\<close>

theorem C3_rejected_call_counterexample:
  "fst (sendNotificationToUser refuses_B throws_for_sA (\<lambda>s. True) 1000 server_A ''A'' example_payload)
     = Inl (EmitError ''sA'')
   \<and> map n_userId (notifications (snd (sendNotificationToUser refuses_B throws_for_sA (\<lambda>s. True) 1000
        server_A ''A'' example_payload))) = [''A'']
   \<and> fst (sendNotificationToUser refuses_B never_throws (\<lambda>s. True) 1000 server_A ''A'' blank_title_payload)
     = Inl (ValidationError ''Notification title is required'')
   \<and> notifications (snd (sendNotificationToUser refuses_B never_throws (\<lambda>s. True) 1000 server_A ''A''
        blank_title_payload)) = []"
  by code_simp












end
